theory Spec2Isabelle
  imports Complex_Main
begin

section \<open>Convex expressions and constraints\<close>

text \<open>
  The optimisation library's objects, as far as the code builds and inspects them.
  A \<open>Variable\<close> carries its name, its shape and its \<open>nonneg\<close> attribute; \<open>Param\<close> is a
  scalar number of the code (a ratio, a capacity), \<open>Data\<close> a constant time series.
  Numbers are real numbers here: the properties below are about which expressions are
  built, not about rounding.
\<close>

type_synonym series = "real list"

datatype expr =
    Variable string nat bool
  | Param real
  | Data series
  | Neg expr
  | Add expr expr
  | Sub expr expr
  | Mul expr expr

datatype constraint = NonPos expr | Zero expr

text \<open>\<open>e.variables()\<close>: the variable leaves of an expression, in order.\<close>

fun variables :: "expr \<Rightarrow> expr list" where
  "variables (Variable nm shp nn) = [Variable nm shp nn]"
| "variables (Param r) = []"
| "variables (Data xs) = []"
| "variables (Neg a) = variables a"
| "variables (Add a b) = variables a @ variables b"
| "variables (Sub a b) = variables a @ variables b"
| "variables (Mul a b) = variables a @ variables b"

text \<open>
  The value of an expression at time step \<open>t\<close> under an assignment of the variables
  (by name); a scalar has the same value at every step.
\<close>

fun eval :: "(string \<Rightarrow> nat \<Rightarrow> real) \<Rightarrow> expr \<Rightarrow> nat \<Rightarrow> real" where
  "eval \<rho> (Variable nm shp nn) t = \<rho> nm t"
| "eval \<rho> (Param r) t = r"
| "eval \<rho> (Data xs) t = xs ! t"
| "eval \<rho> (Neg a) t = - eval \<rho> a t"
| "eval \<rho> (Add a b) t = eval \<rho> a t + eval \<rho> b t"
| "eval \<rho> (Sub a b) t = eval \<rho> a t - eval \<rho> b t"
| "eval \<rho> (Mul a b) t = eval \<rho> a t * eval \<rho> b t"

text \<open>\<open>NonPos e\<close> asks \<open>e \<le> 0\<close>, \<open>Zero e\<close> asks \<open>e = 0\<close>, elementwise.\<close>

fun holds :: "(string \<Rightarrow> nat \<Rightarrow> real) \<Rightarrow> nat \<Rightarrow> constraint \<Rightarrow> bool" where
  "holds \<rho> t (NonPos e) = (eval \<rho> e t \<le> 0)"
| "holds \<rho> t (Zero e) = (eval \<rho> e t = 0)"

section \<open>Errors and log messages\<close>

text \<open>
  The exceptions the code can raise, as values; \<open>ParameterError\<close> carries its message.
  \<open>TellUser\<close> writes to a log: a log is the list of its entries, oldest first.
\<close>

datatype error =
    KeyError
  | AttributeError
  | IndexError
  | ParameterError string

datatype log_entry = Error string | Warning string | Debug string

type_synonym mask = "bool list"

section \<open>CombinedHeatPower.py\<close>

text \<open>
  The fields of a CHP instance that \<open>initialize_variables\<close> and \<open>constraints\<close> use.
  The base class CT is not part of these sources: what \<open>super().initialize_variables\<close>
  leaves in \<open>variables_dict\<close> and what \<open>super().constraints(mask)\<close> returns are
  arguments (\<open>ct_variables\<close>, \<open>ct_constraints\<close>).
\<close>

record chp =
  name :: string
  variables_dict :: "string \<rightharpoonup> expr"
  electric_heat_ratio :: real
  max_steam_ratio :: real

definition initialize_variables :: "(string \<rightharpoonup> expr) \<Rightarrow> nat \<Rightarrow> chp \<Rightarrow> chp" where
  "initialize_variables ct_variables sz self =
     self\<lparr>variables_dict := ct_variables
       (''steam'' \<mapsto> Variable (name self @ ''-steamP'') sz True,
        ''hotwater'' \<mapsto> Variable (name self @ ''-hotwaterP'') sz True)\<rparr>"

definition constraints :: "(mask \<Rightarrow> constraint list) \<Rightarrow> chp \<Rightarrow> mask \<Rightarrow> error + constraint list" where
  "constraints ct_constraints self msk =
     (let constraint_list = ct_constraints msk in
      case variables_dict self ''elec'' of
        None \<Rightarrow> Inl KeyError
      | Some elec \<Rightarrow>
     (case variables_dict self ''steam'' of
        None \<Rightarrow> Inl KeyError
      | Some steam \<Rightarrow>
     (case variables_dict self ''hotwater'' of
        None \<Rightarrow> Inl KeyError
      | Some hotwater \<Rightarrow>
          Inr (constraint_list
               @ [NonPos (Sub steam (Mul (Param (max_steam_ratio self)) hotwater))]
               @ [Zero (Sub (Mul (Add steam hotwater) (Param (electric_heat_ratio self))) elec)]))))"

section \<open>Tables\<close>

text \<open>
  A data frame is its columns in order, each a label and a series over the rows of the
  frame's index. A label is looked up from the left; the frames of the code have one
  column per label. \<open>pd.concat([a, b], axis=1)\<close> of frames over the same index is
  \<open>a @ b\<close>.

  The numbers in a table are the machine's: 64-bit floating point numbers and 64-bit
  integers, whose sums and differences are rounded or wrap around. Their type is the
  parameter \<open>'v\<close>, and the operations that the code applies to them are parameters
  too: the \<open>0\<close> that a column is initialised with, and what \<open>+\<close> and \<open>-\<close> compute for
  two numbers of a table.
\<close>

type_synonym 'v frame = "(string \<times> 'v list) list"

type_synonym index = "nat list"

record 'v arithmetic =
  num_zero :: 'v
  num_add :: "'v \<Rightarrow> 'v \<Rightarrow> 'v"
  num_sub :: "'v \<Rightarrow> 'v \<Rightarrow> 'v"

definition get_col :: "'v frame \<Rightarrow> string \<Rightarrow> error + 'v list" where
  "get_col df c = (case map_of df c of None \<Rightarrow> Inl KeyError | Some s \<Rightarrow> Inr s)"

definition has_col :: "'v frame \<Rightarrow> string \<Rightarrow> bool" where
  "has_col df c = (map_of df c \<noteq> None)"

definition set_col :: "string \<Rightarrow> 'v list \<Rightarrow> 'v frame \<Rightarrow> 'v frame" where
  "set_col c s df =
     (if has_col df c then map (\<lambda>(k, v). if k = c then (k, s) else (k, v)) df
      else df @ [(c, s)])"

definition drop_col :: "string \<Rightarrow> 'v frame \<Rightarrow> 'v frame" where
  "drop_col c df = filter (\<lambda>(k, v). k \<noteq> c) df"

text \<open>The sum and the difference of two series, row by row, in the table's arithmetic.\<close>

definition add_series :: "'v arithmetic \<Rightarrow> 'v list \<Rightarrow> 'v list \<Rightarrow> 'v list" where
  "add_series ar a b = map2 (num_add ar) a b"

definition sub_series :: "'v arithmetic \<Rightarrow> 'v list \<Rightarrow> 'v list \<Rightarrow> 'v list" where
  "sub_series ar a b = map2 (num_sub ar) a b"

text \<open>\<open>np.all(a == b)\<close>: the two series agree at every row.\<close>

definition all_equal :: "'v list \<Rightarrow> 'v list \<Rightarrow> bool" where
  "all_equal a b = list_all (\<lambda>(x, y). x = y) (zip a b)"

definition and_then :: "error + 'a \<Rightarrow> ('a \<Rightarrow> error + 'b) \<Rightarrow> error + 'b" where
  "and_then m f = (case m of Inl e \<Rightarrow> Inl e | Inr x \<Rightarrow> f x)"

text \<open>\<open>results.loc[:, tot] += results[source]\<close>\<close>

definition add_into ::
  "'v arithmetic \<Rightarrow> string \<Rightarrow> string \<Rightarrow> 'v frame \<Rightarrow> error + 'v frame" where
  "add_into ar tot source results =
     and_then (get_col results tot) (\<lambda>t.
     and_then (get_col results source) (\<lambda>s.
       Inr (set_col tot (add_series ar t s) results)))"

section \<open>MicrogridPOI.py\<close>

subsection \<open>Technologies\<close>

text \<open>
  What the point of interconnection reads and writes of a technology instance. The
  technology classes are not part of these sources, so the results of their methods are
  fields: \<open>being_sized\<close> is \<open>None\<close> for a class without that method and
  \<open>der_site_steam_load\<close> (the attribute \<open>site_steam_load\<close> of the instance) is \<open>None\<close>
  for a class without that attribute, where the code catches AttributeError;
  \<open>sizing_error\<close> is what the call writes to the log and what it returns.
\<close>

record 'v der =
  tag :: string
  technology_type :: string
  unique_tech_id :: string
  being_sized :: "bool option"
  sizing_error :: "log_entry list \<times> bool"
  is_power_sizing :: bool
  is_hot :: bool
  is_cold :: bool
  der_site_steam_load :: "series option option"
  der_site_hotwater_load :: "series option option"
  der_site_cooling_load :: "series option option"
  get_charge :: "mask \<Rightarrow> expr"
  get_steam_recovered :: "mask \<Rightarrow> expr"
  get_hotwater_recovered :: "mask \<Rightarrow> expr"
  get_cold_recovered :: "mask \<Rightarrow> expr"
  size_constraints :: "constraint list"
  ch_max_rated :: expr
  dis_max_rated :: expr
  ene_max_rated :: expr
  timeseries_report :: "'v frame"
  monthly_report :: "'v frame"

subsection \<open>The point of interconnection\<close>

text \<open>
  The instances are values here and a position in \<open>der_list\<close> identifies one: an update
  of \<open>der_list[0]\<close> replaces the head of the list.
\<close>

record 'v poi =
  der_list :: "'v der list"
  active_ders :: "'v der list"
  is_sizing_optimization :: bool
  site_steam_load :: "series option"
  site_hotwater_load :: "series option"
  site_cooling_load :: "series option"

fun check_if_sizing_ders_loop :: "'v der list \<Rightarrow> bool" where
  "check_if_sizing_ders_loop [] = False"
| "check_if_sizing_ders_loop (der_instance # ders) =
     (let solve_for_size = (case being_sized der_instance of None \<Rightarrow> False | Some b \<Rightarrow> b)
      in if solve_for_size then True else check_if_sizing_ders_loop ders)"

definition check_if_sizing_ders :: "'v poi \<Rightarrow> bool" where
  "check_if_sizing_ders self = check_if_sizing_ders_loop (der_list self)"

definition sizing_error_message :: string where
  "sizing_error_message = ''Sizing of DERs has an error. Please check error log.''"

text \<open>
  The list comprehension calls \<open>sizing_error()\<close> of every instance, in order, before the
  sum is looked at: the log holds what all the calls wrote.
\<close>

definition error_checks_on_sizing :: "'v poi \<Rightarrow> log_entry list \<times> (error + unit)" where
  "error_checks_on_sizing self =
     (let errors_found = map (\<lambda>der. if snd (sizing_error der) then (1::nat) else 0) (der_list self);
          lg = concat (map (\<lambda>der. fst (sizing_error der)) (der_list self))
      in if sum_list errors_found \<noteq> 0 then (lg, Inl (ParameterError sizing_error_message))
         else (lg, Inr ()))"

text \<open>One round of the loop over \<open>active_ders\<close> in the constructor.\<close>

definition add_thermal_site_load :: "'v der \<Rightarrow> 'v poi \<Rightarrow> 'v poi" where
  "add_thermal_site_load der self =
     self\<lparr>site_steam_load := (case der_site_steam_load der of None \<Rightarrow> None | Some v \<Rightarrow> v),
          site_hotwater_load := (case der_site_hotwater_load der of None \<Rightarrow> None | Some v \<Rightarrow> v),
          site_cooling_load := (case der_site_cooling_load der of None \<Rightarrow> None | Some v \<Rightarrow> v)\<rparr>"

text \<open>
  The constructor, from the state that the base class's constructor leaves (the
  argument).
\<close>

definition init_MicrogridPOI :: "'v poi \<Rightarrow> log_entry list \<times> (error + 'v poi)" where
  "init_MicrogridPOI base =
     (let self = base\<lparr>is_sizing_optimization := check_if_sizing_ders base\<rparr> in
      if is_sizing_optimization self then
        (case error_checks_on_sizing self of
           (lg, Inl e) \<Rightarrow> (lg, Inl e)
         | (lg, Inr u) \<Rightarrow> (lg, Inr (fold add_thermal_site_load (active_ders self) self)))
      else ([], Inr (fold add_thermal_site_load (active_ders self) self)))"

subsection \<open>Deferral sizing\<close>

text \<open>
  A dictionary is an association list read from the left; its keys are the distinct
  first components. The deferral table maps a year to its row, a row maps a column
  label to a number. A value stream other than Deferral has no \<open>min_years\<close>.
\<close>

definition dict_keys :: "('k \<times> 'v) list \<Rightarrow> 'k list" where
  "dict_keys d = remdups (map fst d)"

record deferral =
  min_years :: int
  deferral_df :: "int \<rightharpoonup> (string \<rightharpoonup> real)"

datatype value_stream = Deferral deferral | OtherValueStream

definition set_size :: "(string \<times> value_stream) list \<Rightarrow> int \<Rightarrow> 'v poi \<Rightarrow> error + 'v poi" where
  "set_size value_streams start_year self =
     (case map_of value_streams ''Deferral'' of
        None \<Rightarrow> Inl AttributeError
      | Some OtherValueStream \<Rightarrow> Inl AttributeError
      | Some (Deferral deferral) \<Rightarrow>
          (let min_year = min_years deferral;
               last_year_to_defer = start_year + min_year - 1
           in case deferral_df deferral last_year_to_defer of
                None \<Rightarrow> Inl KeyError
              | Some p_e_req \<Rightarrow>
           (case p_e_req ''Power Capacity Requirement (kW)'' of
                None \<Rightarrow> Inl KeyError
              | Some min_power \<Rightarrow>
           (case p_e_req ''Energy Capacity Requirement (kWh)'' of
                None \<Rightarrow> Inl KeyError
              | Some min_energy \<Rightarrow>
           (case der_list self of
                [] \<Rightarrow> Inl IndexError
              | ess_inst # others \<Rightarrow>
                  if length (dict_keys value_streams) > 1 then
                    Inr (self\<lparr>der_list :=
                      ess_inst\<lparr>size_constraints := size_constraints ess_inst
                         @ [NonPos (Sub (Param min_energy) (ene_max_rated ess_inst))]
                         @ [NonPos (Sub (Param min_power) (ch_max_rated ess_inst))]
                         @ [NonPos (Sub (Param min_power) (dis_max_rated ess_inst))]\<rparr>
                      # others\<rparr>)
                  else
                    Inr (self\<lparr>der_list :=
                      ess_inst\<lparr>ch_max_rated := Param min_power,
                               dis_max_rated := Param min_power,
                               ene_max_rated := Param min_energy\<rparr>
                      # others\<rparr>))))))"

subsection \<open>The non-convex sizing check\<close>

definition is_dcp_error :: "'v poi \<Rightarrow> bool \<Rightarrow> bool" where
  "is_dcp_error self is_binary_formulation =
     fold (\<lambda>der_instance solve_for_size.
             if tag der_instance = ''Battery''
             then solve_for_size \<or> (is_power_sizing der_instance \<and> is_binary_formulation)
             else solve_for_size)
          (der_list self) False"

subsection \<open>The state of the system\<close>

text \<open>
  The ten aggregates that \<open>get_state_of_system\<close> returns. The base class computes them
  first (\<open>super().get_state_of_system(mask)\<close>, an argument here); the loop over the
  active technologies adds to four of them and writes to the log.
\<close>

record system_state =
  load_sum :: expr
  var_gen_sum :: expr
  gen_sum :: expr
  tot_net_ess :: expr
  total_soe :: expr
  agg_power_flows_in :: expr
  agg_power_flows_out :: expr
  agg_steam_heating_power :: expr
  agg_hotwater_heating_power :: expr
  agg_thermal_cooling_power :: expr

definition heat_source_warning :: "'v der \<Rightarrow> log_entry" where
  "heat_source_warning der_inst =
     Warning (''A heat source technology is active ('' @ unique_tech_id der_inst
              @ ''), but you have set the scenario parameter incl_thermal_load to False. ''
              @ ''Any thermal load will be ignored.'')"

definition cold_source_warning :: "'v der \<Rightarrow> log_entry" where
  "cold_source_warning der_inst =
     Warning (''A cold source technology is active ('' @ unique_tech_id der_inst
              @ ''), but you have set the scenario parameter incl_thermal_load to False. ''
              @ ''Any thermal load will be ignored.'')"

definition steam_debug :: "'v der \<Rightarrow> log_entry" where
  "steam_debug der_inst =
     Debug (''adding heat (steam) recovered from this DER: '' @ unique_tech_id der_inst)"

definition hotwater_debug :: "'v der \<Rightarrow> log_entry" where
  "hotwater_debug der_inst =
     Debug (''adding heat (hotwater) recovered from this DER: '' @ unique_tech_id der_inst)"

definition cold_debug :: "'v der \<Rightarrow> log_entry" where
  "cold_debug der_inst =
     Debug (''adding cold recovered from this DER: '' @ unique_tech_id der_inst)"

definition add_vehicle_charge ::
  "mask \<Rightarrow> 'v der \<Rightarrow> system_state \<times> log_entry list \<Rightarrow> system_state \<times> log_entry list" where
  "add_vehicle_charge msk der_inst = (\<lambda>(st, lg).
     if technology_type der_inst = ''Electric Vehicle''
     then (st\<lparr>load_sum := Add (load_sum st) (get_charge der_inst msk)\<rparr>, lg)
     else (st, lg))"

definition add_steam ::
  "'v poi \<Rightarrow> mask \<Rightarrow> 'v der \<Rightarrow> system_state \<times> log_entry list \<Rightarrow> system_state \<times> log_entry list" where
  "add_steam self msk der_inst = (\<lambda>(st, lg).
     if site_steam_load self \<noteq> None
     then (st\<lparr>agg_steam_heating_power :=
                 Add (agg_steam_heating_power st) (get_steam_recovered der_inst msk)\<rparr>,
           lg @ [steam_debug der_inst])
     else (st, lg))"

definition add_hotwater ::
  "'v poi \<Rightarrow> mask \<Rightarrow> 'v der \<Rightarrow> system_state \<times> log_entry list \<Rightarrow> system_state \<times> log_entry list" where
  "add_hotwater self msk der_inst = (\<lambda>(st, lg).
     if site_hotwater_load self \<noteq> None
     then (st\<lparr>agg_hotwater_heating_power :=
                 Add (agg_hotwater_heating_power st) (get_hotwater_recovered der_inst msk)\<rparr>,
           lg @ [hotwater_debug der_inst])
     else (st, lg))"

definition add_heat ::
  "'v poi \<Rightarrow> mask \<Rightarrow> 'v der \<Rightarrow> system_state \<times> log_entry list \<Rightarrow> system_state \<times> log_entry list" where
  "add_heat self msk der_inst = (\<lambda>(st, lg).
     if is_hot der_inst then
       (if site_steam_load self = None \<and> site_hotwater_load self = None
        then (st, lg @ [heat_source_warning der_inst])
        else add_hotwater self msk der_inst (add_steam self msk der_inst (st, lg)))
     else (st, lg))"

definition add_cold ::
  "'v poi \<Rightarrow> mask \<Rightarrow> 'v der \<Rightarrow> system_state \<times> log_entry list \<Rightarrow> system_state \<times> log_entry list" where
  "add_cold self msk der_inst = (\<lambda>(st, lg).
     if is_cold der_inst then
       (if site_cooling_load self = None
        then (st, lg @ [cold_source_warning der_inst])
        else (st\<lparr>agg_thermal_cooling_power :=
                    Add (agg_thermal_cooling_power st) (get_cold_recovered der_inst msk)\<rparr>,
              lg @ [cold_debug der_inst]))
     else (st, lg))"

text \<open>One round of the loop over \<open>active_ders\<close>.\<close>

definition aggregate_der ::
  "'v poi \<Rightarrow> mask \<Rightarrow> 'v der \<Rightarrow> system_state \<times> log_entry list \<Rightarrow> system_state \<times> log_entry list" where
  "aggregate_der self msk der_inst acc =
     add_cold self msk der_inst
       (add_heat self msk der_inst
         (add_vehicle_charge msk der_inst acc))"

definition get_state_of_system ::
  "system_state \<Rightarrow> 'v poi \<Rightarrow> mask \<Rightarrow> system_state \<times> log_entry list" where
  "get_state_of_system poi_state self msk =
     fold (aggregate_der self msk) (active_ders self) (poi_state, [])"

fun is_warning :: "log_entry \<Rightarrow> bool" where
  "is_warning (Warning msg) = True"
| "is_warning (Error msg) = False"
| "is_warning (Debug msg) = False"

subsection \<open>The optimisation problem\<close>

text \<open>
  \<open>super().optimization_problem(...)\<close> gives the objective (a dictionary from labels to
  expressions) and the constraint list that the thermal balance constraints are
  appended to; it is an argument here.
\<close>

type_synonym objective = "(string \<times> expr) list"

definition balance ::
  "series option \<Rightarrow> expr \<Rightarrow> string \<Rightarrow> constraint list \<times> log_entry list
     \<Rightarrow> constraint list \<times> log_entry list" where
  "balance site_load supply msg = (\<lambda>(constraint_list, lg).
     case site_load of
       None \<Rightarrow> (constraint_list, lg)
     | Some ld \<Rightarrow>
         if variables supply \<noteq> []
         then (constraint_list @ [NonPos (Add (Neg supply) (Data ld))], lg @ [Debug msg])
         else (constraint_list, lg))"

definition optimization_problem ::
  "objective \<times> constraint list \<Rightarrow> 'v poi \<Rightarrow> expr \<Rightarrow> expr \<Rightarrow> expr
     \<Rightarrow> (objective \<times> constraint list) \<times> log_entry list" where
  "optimization_problem poi_problem self steam_in hotwater_in cold_in =
     (let (obj_expression, constraint_list) = poi_problem;
          (constraint_list, lg) =
             balance (site_cooling_load self) cold_in
               ''adding thermal cooling power balance constraint''
            (balance (site_hotwater_load self) hotwater_in
               ''adding hot water thermal power balance constraint''
            (balance (site_steam_load self) steam_in
               ''adding steam thermal power balance constraint''
               (constraint_list, [])))
      in ((obj_expression, constraint_list), lg))"

subsection \<open>Merging the reports\<close>

text \<open>
  \<open>ar\<close> is the arithmetic of the numbers in the reports: \<open>results.loc[:, c] = 0\<close>
  fills a column with its zero, \<open>+=\<close> and \<open>-\<close> on columns are its sum and difference,
  row by row.
\<close>

definition initial_results :: "'v arithmetic \<Rightarrow> index \<Rightarrow> 'v frame" where
  "initial_results ar idx =
     [(''Total Original Load (kW)'', map (\<lambda>t. num_zero ar) idx),
      (''Total Load (kW)'', map (\<lambda>t. num_zero ar) idx),
      (''Total Generation (kW)'', map (\<lambda>t. num_zero ar) idx),
      (''Total Storage Power (kW)'', map (\<lambda>t. num_zero ar) idx),
      (''Aggregated State of Energy (kWh)'', map (\<lambda>t. num_zero ar) idx)]"

text \<open>One round of the loop over \<open>der_list\<close>, on the time-series table.\<close>

definition merge_der ::
  "'v arithmetic \<Rightarrow> bool \<Rightarrow> 'v der \<Rightarrow> 'v frame \<Rightarrow> error + 'v frame" where
  "merge_der ar is_dispatch_opt der results0 =
     (let results = timeseries_report der @ results0; u = unique_tech_id der in
      if is_dispatch_opt then
        and_then
          (if technology_type der = ''Generator'' \<or> technology_type der = ''Intermittent Resource''
           then add_into ar ''Total Generation (kW)'' (u @ '' Electric Generation (kW)'') results
           else Inr results) (\<lambda>results.
        and_then
          (if technology_type der = ''Energy Storage System''
           then and_then (add_into ar ''Total Storage Power (kW)'' (u @ '' Power (kW)'') results)
                  (add_into ar ''Aggregated State of Energy (kWh)'' (u @ '' State of Energy (kWh)''))
           else Inr results) (\<lambda>results.
        and_then
          (if technology_type der = ''Load''
           then and_then
                  (add_into ar ''Total Original Load (kW)'' (u @ '' Original Load (kW)'') results)
                  (if tag der = ''ControllableLoad''
                   then add_into ar ''Total Load (kW)'' (u @ '' Load (kW)'')
                   else add_into ar ''Total Load (kW)'' (u @ '' Original Load (kW)''))
           else Inr results) (\<lambda>results.
          (if technology_type der = ''Electric Vehicle''
           then and_then (add_into ar ''Total Load (kW)'' (u @ '' Charge (kW)'') results)
                  (\<lambda>results. if tag der = ''ElectricVehicle1''
                     then add_into ar ''Aggregated State of Energy (kWh)''
                            (u @ '' State of Energy (kWh)'') results
                     else Inr results)
           else Inr results))))
      else Inr results)"

fun merge_loop ::
  "'v arithmetic \<Rightarrow> bool \<Rightarrow> 'v der list \<Rightarrow> 'v frame \<times> 'v frame
     \<Rightarrow> error + 'v frame \<times> 'v frame" where
  "merge_loop ar is_dispatch_opt [] (results, monthly_data) = Inr (results, monthly_data)"
| "merge_loop ar is_dispatch_opt (der # ders) (results, monthly_data) =
     (case merge_der ar is_dispatch_opt der results of
        Inl e \<Rightarrow> Inl e
      | Inr results' \<Rightarrow>
          merge_loop ar is_dispatch_opt ders (results', monthly_data @ monthly_report der))"

text \<open>The tables when the loop ends, before the redundant column is looked at.\<close>

definition merged_ders ::
  "'v arithmetic \<Rightarrow> bool \<Rightarrow> index \<Rightarrow> 'v poi \<Rightarrow> error + 'v frame \<times> 'v frame" where
  "merged_ders ar is_dispatch_opt idx self =
     merge_loop ar is_dispatch_opt (der_list self) (initial_results ar idx, [])"

definition merge_reports ::
  "'v arithmetic \<Rightarrow> bool \<Rightarrow> index \<Rightarrow> 'v poi \<Rightarrow> error + 'v frame \<times> 'v frame" where
  "merge_reports ar is_dispatch_opt idx self =
     and_then (merged_ders ar is_dispatch_opt idx self) (\<lambda>(results, monthly_data).
     and_then (get_col results ''Total Load (kW)'') (\<lambda>total_load.
     and_then (get_col results ''Total Original Load (kW)'') (\<lambda>total_original_load.
       (let results = (if all_equal total_load total_original_load
                       then drop_col ''Total Original Load (kW)'' results else results)
        in and_then (get_col results ''Total Load (kW)'') (\<lambda>ld.
           and_then (get_col results ''Total Generation (kW)'') (\<lambda>gen.
           and_then (get_col results ''Total Storage Power (kW)'') (\<lambda>stor.
             Inr (set_col ''Net Load (kW)'' (sub_series ar (sub_series ar ld gen) stor) results,
                  monthly_data))))))))"

section \<open>Well-formed tables\<close>

text \<open>
  Every column of a frame has \<open>n\<close> rows: the frame is over an index of \<open>n\<close> time steps.
  The reports of the technologies are over the index that \<open>merge_reports\<close> is given.
\<close>

definition rows_ok :: "nat \<Rightarrow> 'v frame \<Rightarrow> bool" where
  "rows_ok n df = list_all (\<lambda>(c, s). length s = n) df"

text \<open>The data columns that are always present in the results.\<close>

definition has_totals :: "'v frame \<Rightarrow> bool" where
  "has_totals df =
     (has_col df ''Total Original Load (kW)'' \<and> has_col df ''Total Load (kW)''
      \<and> has_col df ''Total Generation (kW)'' \<and> has_col df ''Total Storage Power (kW)''
      \<and> has_col df ''Aggregated State of Energy (kWh)'')"

section \<open>Naming a technology in a message\<close>

text \<open>
  For the statement that an error message names a technology: \<open>mentions msg s\<close> holds
  when the string \<open>s\<close> occurs in \<open>msg\<close>.
\<close>

fun starts_with :: "string \<Rightarrow> string \<Rightarrow> bool" where
  "starts_with msg [] = True"
| "starts_with [] (c # s) = False"
| "starts_with (m # msg) (c # s) = (m = c \<and> starts_with msg s)"

fun mentions :: "string \<Rightarrow> string \<Rightarrow> bool" where
  "mentions [] s = (s = [])"
| "mentions (m # msg) s = (starts_with (m # msg) s \<or> mentions msg s)"

section \<open>Example instances\<close>

text \<open>Concrete instances, on which the properties below are evaluated.\<close>

definition example_chp :: chp where
  "example_chp = initialize_variables [''elec'' \<mapsto> Variable ''chp1-elecP'' 2 True] 2
     \<lparr>name = ''chp1'', variables_dict = Map.empty, electric_heat_ratio = 2, max_steam_ratio = 1\<rparr>"

definition example_battery :: "real der" where
  "example_battery =
     \<lparr>tag = ''Battery'', technology_type = ''Energy Storage System'',
      unique_tech_id = ''BATTERY: 1'', being_sized = Some True,
      sizing_error = ([], False), is_power_sizing = True, is_hot = False, is_cold = False,
      der_site_steam_load = None, der_site_hotwater_load = None, der_site_cooling_load = None,
      get_charge = (\<lambda>m. Variable ''BATTERY: 1-ch'' 2 True),
      get_steam_recovered = (\<lambda>m. Param 0), get_hotwater_recovered = (\<lambda>m. Param 0),
      get_cold_recovered = (\<lambda>m. Param 0),
      size_constraints = [],
      ch_max_rated = Variable ''BATTERY: 1-ch_max_rated'' 1 False,
      dis_max_rated = Variable ''BATTERY: 1-dis_max_rated'' 1 False,
      ene_max_rated = Variable ''BATTERY: 1-ene_max_rated'' 1 False,
      timeseries_report = [(''BATTERY: 1 Power (kW)'', [1, -1]),
                           (''BATTERY: 1 State of Energy (kWh)'', [4, 5])],
      monthly_report = []\<rparr>"

definition example_caes :: "real der" where
  "example_caes = example_battery\<lparr>tag := ''CAES'', unique_tech_id := ''CAES: 1''\<rparr>"

definition example_pv :: "real der" where
  "example_pv = example_battery
     \<lparr>tag := ''PV'', technology_type := ''Intermittent Resource'', unique_tech_id := ''PV: 1'',
      being_sized := Some False, is_power_sizing := False,
      ch_max_rated := Param 0, dis_max_rated := Param 0, ene_max_rated := Param 0,
      timeseries_report := [(''PV: 1 Electric Generation (kW)'', [3, 4])]\<rparr>"

definition example_chp_der :: "real der" where
  "example_chp_der = example_battery
     \<lparr>tag := ''CHP'', technology_type := ''Generator'', unique_tech_id := ''CHP: 1'',
      being_sized := Some False, is_power_sizing := False, is_hot := True,
      der_site_steam_load := Some None, der_site_hotwater_load := Some (Some [5, 5]),
      get_steam_recovered := (\<lambda>m. Variable ''chp1-steamP'' 2 True),
      get_hotwater_recovered := (\<lambda>m. Variable ''chp1-hotwaterP'' 2 True),
      timeseries_report := [(''CHP: 1 Electric Generation (kW)'', [6, 6])]\<rparr>"

definition example_poi :: "real poi" where
  "example_poi =
     \<lparr>der_list = [example_pv, example_battery], active_ders = [example_pv, example_battery],
      is_sizing_optimization = False,
      site_steam_load = Some [2, 2], site_hotwater_load = None, site_cooling_load = Some [1, 1]\<rparr>"

definition example_deferral :: deferral where
  "example_deferral =
     \<lparr>min_years = 3,
      deferral_df = [2019 \<mapsto> [''Power Capacity Requirement (kW)'' \<mapsto> 500,
                               ''Energy Capacity Requirement (kWh)'' \<mapsto> 2000]]\<rparr>"


definition example_sizing_poi :: "real poi" where
  "example_sizing_poi = example_poi
     \<lparr>der_list :=
        [example_battery\<lparr>sizing_error := ([Error ''BATTERY: 1 has no upper bound''], True)\<rparr>,
         example_pv,
         example_caes\<lparr>sizing_error := ([Error ''CAES: 1 has no upper bound''], True)\<rparr>],
      active_ders := [example_chp_der, example_battery]\<rparr>"

definition example_state :: system_state where
  "example_state =
     \<lparr>load_sum = Param 0, var_gen_sum = Param 0, gen_sum = Param 0, tot_net_ess = Param 0,
      total_soe = Param 0, agg_power_flows_in = Param 0, agg_power_flows_out = Param 0,
      agg_steam_heating_power = Param 0, agg_hotwater_heating_power = Param 0,
      agg_thermal_cooling_power = Param 0\<rparr>"

definition example_thermal_poi :: "real poi" where
  "example_thermal_poi = example_poi
     \<lparr>active_ders := [example_chp_der],
      site_steam_load := None, site_hotwater_load := Some [5, 5], site_cooling_load := None\<rparr>"




text \<open>
  The arithmetic of signed 64-bit integers, on the integers: a sum or difference that
  leaves the range wraps around. An instance with integer reports.
\<close>

definition wrap64 :: "int \<Rightarrow> int" where
  "wrap64 x = (x + 2 ^ 63) mod 2 ^ 64 - 2 ^ 63"

definition int64_arithmetic :: "int arithmetic" where
  "int64_arithmetic =
     \<lparr>num_zero = 0, num_add = (\<lambda>a b. wrap64 (a + b)), num_sub = (\<lambda>a b. wrap64 (a - b))\<rparr>"

definition example_int_generator :: "int der" where
  "example_int_generator =
     \<lparr>tag = ''ICE'', technology_type = ''Generator'',
      unique_tech_id = ''ICE: 1'', being_sized = Some False,
      sizing_error = ([], False), is_power_sizing = False, is_hot = False, is_cold = False,
      der_site_steam_load = None, der_site_hotwater_load = None, der_site_cooling_load = None,
      get_charge = (\<lambda>m. Param 0),
      get_steam_recovered = (\<lambda>m. Param 0), get_hotwater_recovered = (\<lambda>m. Param 0),
      get_cold_recovered = (\<lambda>m. Param 0),
      size_constraints = [],
      ch_max_rated = Param 0, dis_max_rated = Param 0, ene_max_rated = Param 0,
      timeseries_report = [(''ICE: 1 Electric Generation (kW)'', [9223372036854775807, 5])],
      monthly_report = []\<rparr>"

definition example_int_storage :: "int der" where
  "example_int_storage = example_int_generator
     \<lparr>tag := ''Battery'', technology_type := ''Energy Storage System'',
      unique_tech_id := ''BATTERY: 2'',
      timeseries_report := [(''BATTERY: 2 Power (kW)'', [2, 1]),
                            (''BATTERY: 2 State of Energy (kWh)'', [4, 5])]\<rparr>"

definition example_int_poi :: "int poi" where
  "example_int_poi =
     \<lparr>der_list = [example_int_generator, example_int_storage],
      active_ders = [example_int_generator, example_int_storage],
      is_sizing_optimization = False,
      site_steam_load = None, site_hotwater_load = None, site_cooling_load = None\<rparr>"

definition example_int_results :: "int frame" where
  "example_int_results =
     [(''BATTERY: 2 Power (kW)'', [2, 1]),
      (''BATTERY: 2 State of Energy (kWh)'', [4, 5]),
      (''ICE: 1 Electric Generation (kW)'', [9223372036854775807, 5]),
      (''Total Load (kW)'', [0, 0]),
      (''Total Generation (kW)'', [9223372036854775807, 5]),
      (''Total Storage Power (kW)'', [2, 1]),
      (''Aggregated State of Energy (kWh)'', [4, 5]),
      (''Net Load (kW)'', [9223372036854775807, - 6])]"

section \<open>Properties of CHP\<close>

text \<open>
  C1. Once the variables of the window exist (\<open>elec\<close>, \<open>steam\<close> and \<open>hotwater\<close> are in
  \<open>variables_dict\<close>), \<open>constraints(mask)\<close> returns, for every mask, the base
  generator's constraint list extended with exactly two constraints, and every
  assignment that satisfies all returned constraints at a time step satisfies there
  \<open>steam \<le> max_steam_ratio * hotwater\<close> and
  \<open>(steam + hotwater) * electric_heat_ratio = elec\<close>.
\<close>

theorem chp_constraints:
  assumes "variables_dict self ''elec'' = Some elec"
    and "variables_dict self ''steam'' = Some steam"
    and "variables_dict self ''hotwater'' = Some hotwater"
  shows "constraints ct_constraints self msk =
           Inr (ct_constraints msk @
                [NonPos (Sub steam (Mul (Param (max_steam_ratio self)) hotwater)),
                 Zero (Sub (Mul (Add steam hotwater) (Param (electric_heat_ratio self))) elec)])
         \<and> (\<forall>cs \<rho> t. constraints ct_constraints self msk = Inr cs
               \<and> (\<forall>c \<in> set cs. holds \<rho> t c)
              \<longrightarrow> eval \<rho> steam t \<le> max_steam_ratio self * eval \<rho> hotwater t
                \<and> (eval \<rho> steam t + eval \<rho> hotwater t) * electric_heat_ratio self
                    = eval \<rho> elec t)"
proof -
  have eq: "constraints ct_constraints self msk =
           Inr (ct_constraints msk @
                [NonPos (Sub steam (Mul (Param (max_steam_ratio self)) hotwater)),
                 Zero (Sub (Mul (Add steam hotwater) (Param (electric_heat_ratio self))) elec)])"
    using assms by (simp add: constraints_def)
  show ?thesis
  proof (intro conjI allI impI)
    show "constraints ct_constraints self msk =
           Inr (ct_constraints msk @
                [NonPos (Sub steam (Mul (Param (max_steam_ratio self)) hotwater)),
                 Zero (Sub (Mul (Add steam hotwater) (Param (electric_heat_ratio self))) elec)])"
      by (rule eq)
  next
    fix cs \<rho> t
    assume h: "constraints ct_constraints self msk = Inr cs \<and> (\<forall>c \<in> set cs. holds \<rho> t c)"
    then have "holds \<rho> t (NonPos (Sub steam (Mul (Param (max_steam_ratio self)) hotwater)))"
      using eq by auto
    then show "eval \<rho> steam t \<le> max_steam_ratio self * eval \<rho> hotwater t"
      by simp
  next
    fix cs \<rho> t
    assume h: "constraints ct_constraints self msk = Inr cs \<and> (\<forall>c \<in> set cs. holds \<rho> t c)"
    then have "holds \<rho> t (Zero (Sub (Mul (Add steam hotwater) (Param (electric_heat_ratio self))) elec))"
      using eq by auto
    then show "(eval \<rho> steam t + eval \<rho> hotwater t) * electric_heat_ratio self = eval \<rho> elec t"
      by simp
  qed
qed

theorem chp_constraints_witness:
  "variables_dict example_chp ''elec'' = Some (Variable ''chp1-elecP'' 2 True)
   \<and> variables_dict example_chp ''steam'' = Some (Variable ''chp1-steamP'' 2 True)
   \<and> variables_dict example_chp ''hotwater'' = Some (Variable ''chp1-hotwaterP'' 2 True)
   \<and> constraints (\<lambda>m. []) example_chp [True, True] =
        Inr [NonPos (Sub (Variable ''chp1-steamP'' 2 True)
                         (Mul (Param 1) (Variable ''chp1-hotwaterP'' 2 True))),
             Zero (Sub (Mul (Add (Variable ''chp1-steamP'' 2 True)
                                 (Variable ''chp1-hotwaterP'' 2 True)) (Param 2))
                       (Variable ''chp1-elecP'' 2 True))]
   \<and> holds (\<lambda>nm t. if nm = ''chp1-elecP'' then 6 else if nm = ''chp1-steamP'' then 1 else 2) 1
        (NonPos (Sub (Variable ''chp1-steamP'' 2 True)
                     (Mul (Param 1) (Variable ''chp1-hotwaterP'' 2 True))))
   \<and> holds (\<lambda>nm t. if nm = ''chp1-elecP'' then 6 else if nm = ''chp1-steamP'' then 1 else 2) 1
        (Zero (Sub (Mul (Add (Variable ''chp1-steamP'' 2 True)
                             (Variable ''chp1-hotwaterP'' 2 True)) (Param 2))
                   (Variable ''chp1-elecP'' 2 True)))
   \<and> eval (\<lambda>nm t. if nm = ''chp1-elecP'' then 6 else if nm = ''chp1-steamP'' then 1 else 2)
        (Variable ''chp1-steamP'' 2 True) 1
      \<le> max_steam_ratio example_chp
        * eval (\<lambda>nm t. if nm = ''chp1-elecP'' then 6 else if nm = ''chp1-steamP'' then 1 else 2)
            (Variable ''chp1-hotwaterP'' 2 True) 1"
  using chp_constraints [of example_chp "Variable ''chp1-elecP'' 2 True"
          "Variable ''chp1-steamP'' 2 True" "Variable ''chp1-hotwaterP'' 2 True" "\<lambda>m. []" "[True, True]"]
  by (simp add: example_chp_def initialize_variables_def)

section \<open>Properties of the point of interconnection\<close>

subsection \<open>Thermal balance constraints\<close>

text \<open>
  C2. For each thermal channel (steam, hot water, cold), \<open>optimization_problem\<close> appends
  the channel's inequality to the base class's constraint list if and only if the
  channel's site load is defined and the channel's supply expression has a variable; in
  every other case it appends nothing for the channel. The objective is the base
  class's. The appended constraint \<open>NonPos (-supply + load)\<close> says \<open>supply \<ge> load\<close>.
\<close>

theorem thermal_balance_constraints:
  "fst (optimization_problem (obj_expression, constraint_list) self steam_in hotwater_in cold_in) =
     (obj_expression,
      constraint_list
      @ (if site_steam_load self \<noteq> None \<and> variables steam_in \<noteq> []
         then [NonPos (Add (Neg steam_in) (Data (the (site_steam_load self))))] else [])
      @ (if site_hotwater_load self \<noteq> None \<and> variables hotwater_in \<noteq> []
         then [NonPos (Add (Neg hotwater_in) (Data (the (site_hotwater_load self))))] else [])
      @ (if site_cooling_load self \<noteq> None \<and> variables cold_in \<noteq> []
         then [NonPos (Add (Neg cold_in) (Data (the (site_cooling_load self))))] else []))
   \<and> (\<forall>\<rho> t supply ld.
         holds \<rho> t (NonPos (Add (Neg supply) (Data ld))) = (eval \<rho> supply t \<ge> ld ! t))"
  by (simp add: optimization_problem_def balance_def split: option.splits)

theorem thermal_balance_constraints_witness:
  "fst (optimization_problem ([], []) example_poi
          (Add (Param 0) (Variable ''chp1-steamP'' 2 True))
          (Variable ''chp1-hotwaterP'' 2 True)
          (Param 0)) =
     ([], [NonPos (Add (Neg (Add (Param 0) (Variable ''chp1-steamP'' 2 True))) (Data [2, 2]))])
   \<and> fst (optimization_problem ([], []) example_poi (Param 7) (Param 0) (Param 0)) = ([], [])
   \<and> holds (\<lambda>nm t. 3) 1
        (NonPos (Add (Neg (Add (Param 0) (Variable ''chp1-steamP'' 2 True))) (Data [2, 2])))"
  using thermal_balance_constraints [of "[]" "[]" example_poi
          "Add (Param 0) (Variable ''chp1-steamP'' 2 True)" "Variable ''chp1-hotwaterP'' 2 True"
          "Param 0"]
        thermal_balance_constraints [of "[]" "[]" example_poi "Param 7" "Param 0" "Param 0"]
  by (simp add: example_poi_def)

subsection \<open>The non-convex sizing check\<close>

lemma is_dcp_fold:
  "fold (\<lambda>der_instance solve_for_size.
           if tag der_instance = ''Battery''
           then solve_for_size \<or> (is_power_sizing der_instance \<and> b)
           else solve_for_size) ds acc
   = (acc \<or> (\<exists>d \<in> set ds. tag d = ''Battery'' \<and> is_power_sizing d \<and> b))"
  by (induction ds arbitrary: acc) auto

text \<open>
  What the code computes: it is true if and only if at least one technology tagged
  \<open>Battery\<close> has \<open>is_power_sizing()\<close> true while \<open>is_binary_formulation\<close> is true.
\<close>

lemma is_dcp_error_battery:
  "is_dcp_error self is_binary_formulation =
     (\<exists>d \<in> set (der_list self).
        tag d = ''Battery'' \<and> is_power_sizing d \<and> is_binary_formulation)"
  by (simp add: is_dcp_error_def is_dcp_fold)

text \<open>
  C4. \<open>is_dcp_error(is_binary_formulation)\<close> is to be true if and only if at least one
  storage technology has \<open>is_power_sizing()\<close> true while \<open>is_binary_formulation\<close> is
  true; its docstring speaks of sizing the power of batteries or other DERs under the
  binary formulation of the storage systems. The code misses a case: for a storage
  technology that is not tagged \<open>Battery\<close> (technology type \<open>Energy Storage System\<close>,
  tag \<open>CAES\<close>) that sizes its power, with the binary formulation, it returns False.
\<close>

theorem is_dcp_error_misses_storage:
  "technology_type example_caes = ''Energy Storage System''
   \<and> tag example_caes = ''CAES''
   \<and> is_power_sizing example_caes
   \<and> is_dcp_error (example_poi\<lparr>der_list := [example_caes]\<rparr>) True = False"
  by (simp add: is_dcp_error_def example_caes_def example_battery_def)

subsection \<open>Deferral sizing\<close>

lemma set_size_result:
  assumes "map_of value_streams ''Deferral'' = Some (Deferral d)"
    and "deferral_df d (start_year + min_years d - 1) = Some p_e_req"
    and "p_e_req ''Power Capacity Requirement (kW)'' = Some min_power"
    and "p_e_req ''Energy Capacity Requirement (kWh)'' = Some min_energy"
    and "der_list self = ess_inst # others"
  shows "set_size value_streams start_year self =
     Inr (self\<lparr>der_list :=
       (if length (dict_keys value_streams) > 1
        then ess_inst\<lparr>size_constraints := size_constraints ess_inst
               @ [NonPos (Sub (Param min_energy) (ene_max_rated ess_inst)),
                  NonPos (Sub (Param min_power) (ch_max_rated ess_inst)),
                  NonPos (Sub (Param min_power) (dis_max_rated ess_inst))]\<rparr>
        else ess_inst\<lparr>ch_max_rated := Param min_power, dis_max_rated := Param min_power,
                      ene_max_rated := Param min_energy\<rparr>) # others\<rparr>)"
  using assms by (simp add: set_size_def)





text \<open>
  C10. \<open>set_size\<close> reads and changes only the first element of \<open>der_list\<close>. Whenever it
  returns, the Deferral entry and its table row were there, \<open>der_list\<close> was not empty,
  every element after the first and every other attribute of the point of
  interconnection is as before, and the first element has received the rated capacities
  (Deferral the only value stream) or the three size-floor constraints (more than one
  value stream). This does not depend on the elements after the first nor on what kind
  of technology the first is: with other elements after it and any tag and technology
  type, the same assignments or constraints are applied to it.
\<close>

theorem set_size_frame:
  assumes "set_size value_streams start_year self = Inr self'"
  shows "\<exists>d p_e_req min_power min_energy ess_inst others.
           map_of value_streams ''Deferral'' = Some (Deferral d)
         \<and> deferral_df d (start_year + min_years d - 1) = Some p_e_req
         \<and> p_e_req ''Power Capacity Requirement (kW)'' = Some min_power
         \<and> p_e_req ''Energy Capacity Requirement (kWh)'' = Some min_energy
         \<and> der_list self = ess_inst # others
         \<and> self' = self\<lparr>der_list :=
              (if length (dict_keys value_streams) > 1
               then ess_inst\<lparr>size_constraints := size_constraints ess_inst
                      @ [NonPos (Sub (Param min_energy) (ene_max_rated ess_inst)),
                         NonPos (Sub (Param min_power) (ch_max_rated ess_inst)),
                         NonPos (Sub (Param min_power) (dis_max_rated ess_inst))]\<rparr>
               else ess_inst\<lparr>ch_max_rated := Param min_power, dis_max_rated := Param min_power,
                             ene_max_rated := Param min_energy\<rparr>) # others\<rparr>
         \<and> (\<forall>others2 tg tt.
               set_size value_streams start_year
                 (self\<lparr>der_list := ess_inst\<lparr>tag := tg, technology_type := tt\<rparr> # others2\<rparr>)
               = Inr (self\<lparr>der_list :=
                   (if length (dict_keys value_streams) > 1
                    then ess_inst\<lparr>tag := tg, technology_type := tt,
                           size_constraints := size_constraints ess_inst
                           @ [NonPos (Sub (Param min_energy) (ene_max_rated ess_inst)),
                              NonPos (Sub (Param min_power) (ch_max_rated ess_inst)),
                              NonPos (Sub (Param min_power) (dis_max_rated ess_inst))]\<rparr>
                    else ess_inst\<lparr>tag := tg, technology_type := tt,
                           ch_max_rated := Param min_power, dis_max_rated := Param min_power,
                           ene_max_rated := Param min_energy\<rparr>) # others2\<rparr>))"
proof -
  from assms obtain d where d: "map_of value_streams ''Deferral'' = Some (Deferral d)"
    by (auto simp: set_size_def split: option.splits value_stream.splits)
  from assms d obtain p_e_req where
    row: "deferral_df d (start_year + min_years d - 1) = Some p_e_req"
    by (auto simp: set_size_def split: option.splits)
  from assms d row obtain min_power where
    mp: "p_e_req ''Power Capacity Requirement (kW)'' = Some min_power"
    by (auto simp: set_size_def split: option.splits)
  from assms d row mp obtain min_energy where
    me: "p_e_req ''Energy Capacity Requirement (kWh)'' = Some min_energy"
    by (auto simp: set_size_def split: option.splits)
  from assms d row mp me obtain ess_inst others where
    dl: "der_list self = ess_inst # others"
    by (auto simp: set_size_def split: list.splits)
  have self': "self' = self\<lparr>der_list :=
              (if length (dict_keys value_streams) > 1
               then ess_inst\<lparr>size_constraints := size_constraints ess_inst
                      @ [NonPos (Sub (Param min_energy) (ene_max_rated ess_inst)),
                         NonPos (Sub (Param min_power) (ch_max_rated ess_inst)),
                         NonPos (Sub (Param min_power) (dis_max_rated ess_inst))]\<rparr>
               else ess_inst\<lparr>ch_max_rated := Param min_power, dis_max_rated := Param min_power,
                             ene_max_rated := Param min_energy\<rparr>) # others\<rparr>"
    using set_size_result [OF d row mp me dl] assms by simp
  have other: "\<forall>others2 tg tt.
               set_size value_streams start_year
                 (self\<lparr>der_list := ess_inst\<lparr>tag := tg, technology_type := tt\<rparr> # others2\<rparr>)
               = Inr (self\<lparr>der_list :=
                   (if length (dict_keys value_streams) > 1
                    then ess_inst\<lparr>tag := tg, technology_type := tt,
                           size_constraints := size_constraints ess_inst
                           @ [NonPos (Sub (Param min_energy) (ene_max_rated ess_inst)),
                              NonPos (Sub (Param min_power) (ch_max_rated ess_inst)),
                              NonPos (Sub (Param min_power) (dis_max_rated ess_inst))]\<rparr>
                    else ess_inst\<lparr>tag := tg, technology_type := tt,
                           ch_max_rated := Param min_power, dis_max_rated := Param min_power,
                           ene_max_rated := Param min_energy\<rparr>) # others2\<rparr>)"
    using d row mp me by (simp add: set_size_def)
  from d row mp me dl self' other show ?thesis
    by blast
qed

theorem set_size_frame_witness:
  "set_size [(''Deferral'', Deferral example_deferral)] 2017 example_poi =
     Inr (example_poi\<lparr>der_list :=
       [example_pv\<lparr>ch_max_rated := Param 500, dis_max_rated := Param 500,
                   ene_max_rated := Param 2000\<rparr>, example_battery]\<rparr>)
   \<and> set_size [(''Deferral'', Deferral example_deferral), (''DA'', OtherValueStream)] 2017
        example_poi =
     Inr (example_poi\<lparr>der_list :=
       [example_pv\<lparr>size_constraints :=
          [NonPos (Sub (Param 2000) (Param 0)), NonPos (Sub (Param 500) (Param 0)),
           NonPos (Sub (Param 500) (Param 0))]\<rparr>, example_battery]\<rparr>)
   \<and> technology_type example_pv = ''Intermittent Resource''
   \<and> (\<exists>ess_inst others. der_list example_poi = ess_inst # others
         \<and> others = [example_battery])"
proof -
  have h1: "set_size [(''Deferral'', Deferral example_deferral)] 2017 example_poi =
     Inr (example_poi\<lparr>der_list :=
       [example_pv\<lparr>ch_max_rated := Param 500, dis_max_rated := Param 500,
                   ene_max_rated := Param 2000\<rparr>, example_battery]\<rparr>)"
    by (simp add: set_size_def example_deferral_def example_poi_def dict_keys_def)
  have h2: "set_size [(''Deferral'', Deferral example_deferral), (''DA'', OtherValueStream)] 2017
        example_poi =
     Inr (example_poi\<lparr>der_list :=
       [example_pv\<lparr>size_constraints :=
          [NonPos (Sub (Param 2000) (Param 0)), NonPos (Sub (Param 500) (Param 0)),
           NonPos (Sub (Param 500) (Param 0))]\<rparr>, example_battery]\<rparr>)"
    by (simp add: set_size_def example_deferral_def example_poi_def dict_keys_def
          example_pv_def example_battery_def)
  have t: "technology_type example_pv = ''Intermittent Resource''"
    by (simp add: example_pv_def)
  from set_size_frame [OF h1] set_size_frame [OF h2] obtain ess_inst others where
    "der_list example_poi = ess_inst # others"
    by blast
  then have "\<exists>ess_inst others. der_list example_poi = ess_inst # others
         \<and> others = [example_battery]"
    by (simp add: example_poi_def)
  with h1 h2 t show ?thesis
    by blast
qed

subsection \<open>Construction\<close>

lemma add_thermal_site_load_twice:
  "add_thermal_site_load a (add_thermal_site_load b self) = add_thermal_site_load a self"
  by (simp add: add_thermal_site_load_def)

lemma fold_add_thermal_site_load:
  "ders \<noteq> [] \<Longrightarrow>
   fold add_thermal_site_load ders self = add_thermal_site_load (last ders) self"
proof (induction ders arbitrary: self)
  case Nil
  then show ?case by simp
next
  case (Cons d ders)
  show ?case
  proof (cases "ders = []")
    case True
    then show ?thesis by simp
  next
    case False
    then show ?thesis
      using Cons.IH [OF False] by (simp add: add_thermal_site_load_twice)
  qed
qed

lemma init_MicrogridPOI_Inr:
  assumes "init_MicrogridPOI base = (lg, Inr self)"
  shows "self = fold add_thermal_site_load (active_ders base)
                  (base\<lparr>is_sizing_optimization := check_if_sizing_ders base\<rparr>)"
  using assms
  by (auto simp: init_MicrogridPOI_def Let_def split: if_splits prod.splits sum.splits)

text \<open>
  C9. After construction with a non-empty list of active technologies, each of the
  three site thermal loads of the point of interconnection is that attribute of the
  last active technology, and \<open>None\<close> when the last one has no such attribute: what an
  earlier technology declares is overwritten.
\<close>

theorem site_loads_from_last_der:
  assumes "init_MicrogridPOI base = (lg, Inr self)"
    and "active_ders base \<noteq> []"
  shows "site_steam_load self =
           (case der_site_steam_load (last (active_ders base)) of None \<Rightarrow> None | Some v \<Rightarrow> v)
       \<and> site_hotwater_load self =
           (case der_site_hotwater_load (last (active_ders base)) of None \<Rightarrow> None | Some v \<Rightarrow> v)
       \<and> site_cooling_load self =
           (case der_site_cooling_load (last (active_ders base)) of None \<Rightarrow> None | Some v \<Rightarrow> v)"
proof -
  have "self = add_thermal_site_load (last (active_ders base))
                 (base\<lparr>is_sizing_optimization := check_if_sizing_ders base\<rparr>)"
    using init_MicrogridPOI_Inr [OF assms(1)] fold_add_thermal_site_load [OF assms(2)]
    by simp
  then show ?thesis
    by (simp add: add_thermal_site_load_def)
qed

theorem site_loads_from_last_der_witness:
  "init_MicrogridPOI (example_poi\<lparr>active_ders := [example_chp_der, example_battery]\<rparr>) =
     ([], Inr (example_poi\<lparr>active_ders := [example_chp_der, example_battery],
                 is_sizing_optimization := True,
                 site_steam_load := None, site_hotwater_load := None,
                 site_cooling_load := None\<rparr>))
   \<and> der_site_hotwater_load example_chp_der = Some (Some [5, 5])
   \<and> site_hotwater_load (example_poi\<lparr>active_ders := [example_chp_der, example_battery],
                 is_sizing_optimization := True,
                 site_steam_load := None, site_hotwater_load := None,
                 site_cooling_load := None\<rparr>) = None"
proof -
  have h: "init_MicrogridPOI (example_poi\<lparr>active_ders := [example_chp_der, example_battery]\<rparr>) =
     ([], Inr (example_poi\<lparr>active_ders := [example_chp_der, example_battery],
                 is_sizing_optimization := True,
                 site_steam_load := None, site_hotwater_load := None,
                 site_cooling_load := None\<rparr>))"
    by (simp add: init_MicrogridPOI_def check_if_sizing_ders_def error_checks_on_sizing_def
          add_thermal_site_load_def example_poi_def example_pv_def example_battery_def
          example_chp_der_def)
  have ne: "active_ders (example_poi\<lparr>active_ders := [example_chp_der, example_battery]\<rparr>) \<noteq> []"
    by simp
  from site_loads_from_last_der [OF h ne] h show ?thesis
    by (simp add: example_chp_der_def)
qed

subsection \<open>Sizing validation\<close>

lemma check_if_sizing_ders_loop_iff:
  "check_if_sizing_ders_loop ders = (\<exists>d \<in> set ders. being_sized d = Some True)"
  by (induction ders) (auto split: option.splits)

lemma errors_found_sum:
  "(sum_list (map (\<lambda>der. if snd (sizing_error der) then (1::nat) else 0) ders) \<noteq> 0)
     = (\<exists>d \<in> set ders. snd (sizing_error d))"
  by (induction ders) auto

lemma error_checks_on_sizing_result:
  "error_checks_on_sizing self =
     (concat (map (\<lambda>der. fst (sizing_error der)) (der_list self)),
      if \<exists>d \<in> set (der_list self). snd (sizing_error d)
      then Inl (ParameterError sizing_error_message) else Inr ())"
  unfolding error_checks_on_sizing_def Let_def errors_found_sum by simp

text \<open>
  C5, as the code has it. Sizing validation runs at construction exactly when some
  technology is being sized (a technology without \<open>being_sized\<close> counts as not sized).
  It calls the sizing-error predicate of every technology, so the log holds what all of
  them wrote, also when it raises; it raises one ParameterError if and only if at least
  one technology reports a sizing error, and returns normally when none does. The error
  is the same for every set of failing technologies: its message is fixed.
\<close>

theorem sizing_validation:
  "error_checks_on_sizing self =
     (concat (map (\<lambda>der. fst (sizing_error der)) (der_list self)),
      if \<exists>d \<in> set (der_list self). snd (sizing_error d)
      then Inl (ParameterError sizing_error_message) else Inr ())
   \<and> check_if_sizing_ders self = (\<exists>d \<in> set (der_list self). being_sized d = Some True)
   \<and> ((\<exists>e. snd (init_MicrogridPOI self) = Inl e)
        = ((\<exists>d \<in> set (der_list self). being_sized d = Some True)
           \<and> (\<exists>d \<in> set (der_list self). snd (sizing_error d))))
   \<and> (\<forall>e. snd (init_MicrogridPOI self) = Inl e \<longrightarrow>
          e = ParameterError sizing_error_message
          \<and> fst (init_MicrogridPOI self)
              = concat (map (\<lambda>der. fst (sizing_error der)) (der_list self)))"
proof (intro conjI)
  show "error_checks_on_sizing self =
     (concat (map (\<lambda>der. fst (sizing_error der)) (der_list self)),
      if \<exists>d \<in> set (der_list self). snd (sizing_error d)
      then Inl (ParameterError sizing_error_message) else Inr ())"
    by (rule error_checks_on_sizing_result)
next
  show "check_if_sizing_ders self = (\<exists>d \<in> set (der_list self). being_sized d = Some True)"
    by (simp add: check_if_sizing_ders_def check_if_sizing_ders_loop_iff)
next
  show "(\<exists>e. snd (init_MicrogridPOI self) = Inl e)
        = ((\<exists>d \<in> set (der_list self). being_sized d = Some True)
           \<and> (\<exists>d \<in> set (der_list self). snd (sizing_error d)))"
    by (auto simp: init_MicrogridPOI_def Let_def error_checks_on_sizing_result
          check_if_sizing_ders_def check_if_sizing_ders_loop_iff)
next
  show "\<forall>e. snd (init_MicrogridPOI self) = Inl e \<longrightarrow>
          e = ParameterError sizing_error_message
          \<and> fst (init_MicrogridPOI self)
              = concat (map (\<lambda>der. fst (sizing_error der)) (der_list self))"
    by (auto simp: init_MicrogridPOI_def Let_def error_checks_on_sizing_result
          check_if_sizing_ders_def check_if_sizing_ders_loop_iff split: if_splits)
qed

theorem sizing_validation_witness:
  "init_MicrogridPOI example_sizing_poi =
     ([Error ''BATTERY: 1 has no upper bound'', Error ''CAES: 1 has no upper bound''],
      Inl (ParameterError sizing_error_message))
   \<and> error_checks_on_sizing example_poi = ([], Inr ())"
  using sizing_validation [of example_sizing_poi] sizing_validation [of example_poi]
  by (simp add: init_MicrogridPOI_def check_if_sizing_ders_def error_checks_on_sizing_def
        example_sizing_poi_def example_poi_def example_pv_def example_battery_def
        example_caes_def)

text \<open>
  C5, as it is written, fails: with the first and the third of three technologies
  reporting a sizing error, the error raised names neither of them.
\<close>

theorem sizing_error_names_counterexample:
  "\<not> (\<exists>msg. snd (error_checks_on_sizing example_sizing_poi) = Inl (ParameterError msg)
         \<and> (\<forall>d \<in> set (der_list example_sizing_poi).
               snd (sizing_error d) \<longrightarrow> mentions msg (unique_tech_id d)))"
  by (simp add: error_checks_on_sizing_def sizing_error_message_def example_sizing_poi_def
        example_poi_def example_pv_def example_battery_def example_caes_def)

subsection \<open>Recovered heat and cold\<close>

lemma is_warning_messages:
  "is_warning (heat_source_warning d)" "is_warning (cold_source_warning d)"
  "\<not> is_warning (steam_debug d)" "\<not> is_warning (hotwater_debug d)"
  "\<not> is_warning (cold_debug d)"
  by (simp_all add: heat_source_warning_def cold_source_warning_def steam_debug_def
        hotwater_debug_def cold_debug_def)

lemma add_vehicle_charge_thermal:
  "agg_steam_heating_power (fst (add_vehicle_charge msk d acc)) = agg_steam_heating_power (fst acc)"
  "agg_hotwater_heating_power (fst (add_vehicle_charge msk d acc)) = agg_hotwater_heating_power (fst acc)"
  "agg_thermal_cooling_power (fst (add_vehicle_charge msk d acc)) = agg_thermal_cooling_power (fst acc)"
  "snd (add_vehicle_charge msk d acc) = snd acc"
  by (cases acc, simp add: add_vehicle_charge_def)+

lemma add_heat_thermal:
  "agg_steam_heating_power (fst (add_heat self msk d acc)) =
     (if is_hot d \<and> site_steam_load self \<noteq> None
      then Add (agg_steam_heating_power (fst acc)) (get_steam_recovered d msk)
      else agg_steam_heating_power (fst acc))"
  "agg_hotwater_heating_power (fst (add_heat self msk d acc)) =
     (if is_hot d \<and> site_hotwater_load self \<noteq> None
      then Add (agg_hotwater_heating_power (fst acc)) (get_hotwater_recovered d msk)
      else agg_hotwater_heating_power (fst acc))"
  "agg_thermal_cooling_power (fst (add_heat self msk d acc)) = agg_thermal_cooling_power (fst acc)"
  "filter is_warning (snd (add_heat self msk d acc)) =
     filter is_warning (snd acc)
     @ (if is_hot d \<and> site_steam_load self = None \<and> site_hotwater_load self = None
        then [heat_source_warning d] else [])"
  by (cases acc, simp add: add_heat_def add_steam_def add_hotwater_def is_warning_messages)+

lemma add_cold_thermal:
  "agg_steam_heating_power (fst (add_cold self msk d acc)) = agg_steam_heating_power (fst acc)"
  "agg_hotwater_heating_power (fst (add_cold self msk d acc)) = agg_hotwater_heating_power (fst acc)"
  "agg_thermal_cooling_power (fst (add_cold self msk d acc)) =
     (if is_cold d \<and> site_cooling_load self \<noteq> None
      then Add (agg_thermal_cooling_power (fst acc)) (get_cold_recovered d msk)
      else agg_thermal_cooling_power (fst acc))"
  "filter is_warning (snd (add_cold self msk d acc)) =
     filter is_warning (snd acc)
     @ (if is_cold d \<and> site_cooling_load self = None then [cold_source_warning d] else [])"
  by (cases acc, simp add: add_cold_def is_warning_messages)+

lemma aggregate_der_thermal:
  "agg_steam_heating_power (fst (aggregate_der self msk d acc)) =
     (if is_hot d \<and> site_steam_load self \<noteq> None
      then Add (agg_steam_heating_power (fst acc)) (get_steam_recovered d msk)
      else agg_steam_heating_power (fst acc))"
  "agg_hotwater_heating_power (fst (aggregate_der self msk d acc)) =
     (if is_hot d \<and> site_hotwater_load self \<noteq> None
      then Add (agg_hotwater_heating_power (fst acc)) (get_hotwater_recovered d msk)
      else agg_hotwater_heating_power (fst acc))"
  "agg_thermal_cooling_power (fst (aggregate_der self msk d acc)) =
     (if is_cold d \<and> site_cooling_load self \<noteq> None
      then Add (agg_thermal_cooling_power (fst acc)) (get_cold_recovered d msk)
      else agg_thermal_cooling_power (fst acc))"
  "filter is_warning (snd (aggregate_der self msk d acc)) =
     filter is_warning (snd acc)
     @ (if is_hot d \<and> site_steam_load self = None \<and> site_hotwater_load self = None
        then [heat_source_warning d] else [])
     @ (if is_cold d \<and> site_cooling_load self = None then [cold_source_warning d] else [])"
  unfolding aggregate_der_def
  by (simp_all only: add_cold_thermal add_heat_thermal add_vehicle_charge_thermal append_assoc)

lemma fold_aggregate_der:
  "agg_steam_heating_power (fst (fold (aggregate_der self msk) ders acc)) =
     foldl Add (agg_steam_heating_power (fst acc))
       (map (\<lambda>d. get_steam_recovered d msk)
          (filter (\<lambda>d. is_hot d \<and> site_steam_load self \<noteq> None) ders))
   \<and> agg_hotwater_heating_power (fst (fold (aggregate_der self msk) ders acc)) =
     foldl Add (agg_hotwater_heating_power (fst acc))
       (map (\<lambda>d. get_hotwater_recovered d msk)
          (filter (\<lambda>d. is_hot d \<and> site_hotwater_load self \<noteq> None) ders))
   \<and> agg_thermal_cooling_power (fst (fold (aggregate_der self msk) ders acc)) =
     foldl Add (agg_thermal_cooling_power (fst acc))
       (map (\<lambda>d. get_cold_recovered d msk)
          (filter (\<lambda>d. is_cold d \<and> site_cooling_load self \<noteq> None) ders))
   \<and> filter is_warning (snd (fold (aggregate_der self msk) ders acc)) =
     filter is_warning (snd acc)
     @ concat (map (\<lambda>d.
          (if is_hot d \<and> site_steam_load self = None \<and> site_hotwater_load self = None
           then [heat_source_warning d] else [])
          @ (if is_cold d \<and> site_cooling_load self = None then [cold_source_warning d] else []))
        ders)"
proof (induction ders arbitrary: acc)
  case Nil
  then show ?case by simp
next
  case (Cons d ders)
  show ?case
    using Cons.IH [of "aggregate_der self msk d acc"]
    by (simp add: aggregate_der_thermal)
qed

text \<open>
  C6, as the code has it. For every active heat source, a warning is written if and
  only if both the steam and the hot water site load are undefined; its recovered steam
  is added to the steam aggregate if and only if the steam site load is defined, and its
  recovered hot water to the hot water aggregate if and only if the hot water site load
  is defined. For every active cold source, a warning is written if and only if the
  cooling site load is undefined, and its recovered cold is added if and only if that
  load is defined. The log holds no other warning.
\<close>

theorem recovered_heat_and_cold:
  "agg_steam_heating_power (fst (get_state_of_system poi_state self msk)) =
     foldl Add (agg_steam_heating_power poi_state)
       (map (\<lambda>d. get_steam_recovered d msk)
          (filter (\<lambda>d. is_hot d \<and> site_steam_load self \<noteq> None) (active_ders self)))
   \<and> agg_hotwater_heating_power (fst (get_state_of_system poi_state self msk)) =
     foldl Add (agg_hotwater_heating_power poi_state)
       (map (\<lambda>d. get_hotwater_recovered d msk)
          (filter (\<lambda>d. is_hot d \<and> site_hotwater_load self \<noteq> None) (active_ders self)))
   \<and> agg_thermal_cooling_power (fst (get_state_of_system poi_state self msk)) =
     foldl Add (agg_thermal_cooling_power poi_state)
       (map (\<lambda>d. get_cold_recovered d msk)
          (filter (\<lambda>d. is_cold d \<and> site_cooling_load self \<noteq> None) (active_ders self)))
   \<and> filter is_warning (snd (get_state_of_system poi_state self msk)) =
     concat (map (\<lambda>d.
          (if is_hot d \<and> site_steam_load self = None \<and> site_hotwater_load self = None
           then [heat_source_warning d] else [])
          @ (if is_cold d \<and> site_cooling_load self = None then [cold_source_warning d] else []))
        (active_ders self))"
  unfolding get_state_of_system_def
  using fold_aggregate_der [of self msk "active_ders self" "(poi_state, [])"] by simp

theorem recovered_heat_and_cold_witness:
  "agg_hotwater_heating_power (fst (get_state_of_system example_state example_thermal_poi [True, True]))
     = Add (Param 0) (Variable ''chp1-hotwaterP'' 2 True)
   \<and> agg_steam_heating_power (fst (get_state_of_system example_state example_thermal_poi [True, True]))
     = Param 0
   \<and> filter is_warning (snd (get_state_of_system example_state
        (example_thermal_poi\<lparr>site_hotwater_load := None\<rparr>) [True, True]))
     = [heat_source_warning example_chp_der]"
  using recovered_heat_and_cold [of example_state example_thermal_poi "[True, True]"]
        recovered_heat_and_cold [of example_state "example_thermal_poi\<lparr>site_hotwater_load := None\<rparr>"
          "[True, True]"]
  by (simp add: example_state_def example_thermal_poi_def example_poi_def example_chp_der_def
        example_battery_def)

text \<open>
  C6, as it is written, fails: with the steam site load undefined and the hot water
  site load defined, the steam recovered by an active heat source is left out of the
  aggregate and no warning is written.
\<close>

theorem silent_steam_counterexample:
  "is_hot example_chp_der
   \<and> site_steam_load example_thermal_poi = None
   \<and> get_state_of_system example_state example_thermal_poi [True, True] =
       (example_state\<lparr>agg_hotwater_heating_power :=
          Add (Param 0) (Variable ''chp1-hotwaterP'' 2 True)\<rparr>,
        [hotwater_debug example_chp_der])
   \<and> \<not> (\<forall>d \<in> set (active_ders example_thermal_poi).
           is_hot d \<and> site_steam_load example_thermal_poi = None \<longrightarrow>
           heat_source_warning d
             \<in> set (snd (get_state_of_system example_state example_thermal_poi [True, True])))"
proof -
  have r: "get_state_of_system example_state example_thermal_poi [True, True] =
       (example_state\<lparr>agg_hotwater_heating_power :=
          Add (Param 0) (Variable ''chp1-hotwaterP'' 2 True)\<rparr>,
        [hotwater_debug example_chp_der])"
    by (simp add: get_state_of_system_def aggregate_der_def add_cold_def add_heat_def
          add_steam_def add_hotwater_def add_vehicle_charge_def example_state_def
          example_thermal_poi_def example_poi_def example_chp_der_def example_battery_def)
  have a: "active_ders example_thermal_poi = [example_chp_der]"
    by (simp add: example_thermal_poi_def)
  have h: "is_hot example_chp_der"
    by (simp add: example_chp_der_def)
  have n: "site_steam_load example_thermal_poi = None"
    by (simp add: example_thermal_poi_def)
  have d: "heat_source_warning example_chp_der \<noteq> hotwater_debug example_chp_der"
    by (simp add: heat_source_warning_def hotwater_debug_def)
  show ?thesis
    by (simp add: r a h n d)
qed

subsection \<open>Merged reports\<close>

lemma map_of_replace:
  "map_of (map (\<lambda>(k, v). if k = c then (k, s) else (k, v)) df) c' =
     (if c' = c then (if map_of df c = None then None else Some s) else map_of df c')"
  by (induction df) auto

lemma map_of_drop:
  "map_of (filter (\<lambda>(k, v). k \<noteq> c) df) c' = (if c' = c then None else map_of df c')"
  by (induction df) auto

lemma map_of_set_col:
  "map_of (set_col c s df) c' = (if c' = c then Some s else map_of df c')"
  by (auto simp: set_col_def has_col_def map_of_replace map_add_def split: option.splits)

lemma get_col_set_col:
  "get_col (set_col c s df) c' = (if c' = c then Inr s else get_col df c')"
  by (simp add: get_col_def map_of_set_col)

lemma has_col_set_col:
  "has_col (set_col c s df) c' = (c' = c \<or> has_col df c')"
  by (simp add: has_col_def map_of_set_col)

lemma get_col_drop_col:
  "c' \<noteq> c \<Longrightarrow> get_col (drop_col c df) c' = get_col df c'"
  by (simp add: get_col_def drop_col_def map_of_drop)


lemma has_col_append:
  "has_col df c \<Longrightarrow> has_col (report @ df) c"
  by (auto simp: has_col_def map_add_def split: option.splits)

lemma get_col_has_col:
  "get_col df c = Inr s \<Longrightarrow> has_col df c"
  by (auto simp: get_col_def has_col_def split: option.splits)

lemma has_col_get_col:
  "has_col df c \<Longrightarrow> \<exists>s. get_col df c = Inr s"
  by (auto simp: get_col_def has_col_def split: option.splits)

lemma rows_ok_get_col:
  "rows_ok n df \<Longrightarrow> get_col df c = Inr s \<Longrightarrow> length s = n"
  by (auto simp: rows_ok_def get_col_def list_all_iff split: option.splits dest!: map_of_SomeD)

lemma rows_ok_set_col:
  "rows_ok n df \<Longrightarrow> length s = n \<Longrightarrow> rows_ok n (set_col c s df)"
  by (fastforce simp: rows_ok_def set_col_def list_all_iff split: if_splits)

lemma rows_ok_drop_col:
  "rows_ok n df \<Longrightarrow> rows_ok n (drop_col c df)"
  by (auto simp: rows_ok_def drop_col_def list_all_iff)

lemma rows_ok_append:
  "rows_ok n (a @ b) = (rows_ok n a \<and> rows_ok n b)"
  by (simp add: rows_ok_def)

lemma add_into_keeps:
  assumes "add_into ar tot source df = Inr df'"
  shows "has_col df' c = has_col df c" and "rows_ok n df \<Longrightarrow> rows_ok n df'"
proof -
  obtain t s where t: "get_col df tot = Inr t" and s: "get_col df source = Inr s"
    and df': "df' = set_col tot (add_series ar t s) df"
    using assms by (auto simp: add_into_def and_then_def split: sum.splits)
  show "has_col df' c = has_col df c"
    using get_col_has_col [OF t] by (auto simp: df' has_col_set_col)
  show "rows_ok n df'" if "rows_ok n df"
  proof -
    have "length t = n" "length s = n"
      using that t s by (auto dest: rows_ok_get_col)
    then show ?thesis
      using that by (simp add: df' rows_ok_set_col add_series_def)
  qed
qed

lemma add_into_totals:
  "add_into ar tot source df = Inr df' \<Longrightarrow> has_totals df \<Longrightarrow> has_totals df'"
  by (simp add: has_totals_def add_into_keeps(1))

lemma and_then_Inr:
  "and_then m f = Inr y \<Longrightarrow> \<exists>x. m = Inr x \<and> f x = Inr y"
  by (cases m) (simp_all add: and_then_def)

lemma add_into_ok:
  "add_into ar tot source x = Inr y \<Longrightarrow> has_totals x \<and> rows_ok n x
     \<Longrightarrow> has_totals y \<and> rows_ok n y"
  using add_into_totals add_into_keeps(2) by blast

lemma merge_der_ok:
  assumes m: "merge_der ar is_dispatch_opt d df = Inr df'"
    and ok: "has_totals df \<and> rows_ok n df"
    and rep: "rows_ok n (timeseries_report d)"
  shows "has_totals df' \<and> rows_ok n df'"
proof -
  define r0 where "r0 = timeseries_report d @ df"
  have ok0: "has_totals r0 \<and> rows_ok n r0"
    using ok rep by (simp add: r0_def has_totals_def has_col_append rows_ok_append)
  show ?thesis
  proof (cases is_dispatch_opt)
    case False
    then have "df' = r0"
      using m by (simp add: merge_der_def r0_def)
    then show ?thesis using ok0 by simp
  next
    case True
    from m True obtain r1 r2 r3 where
      a: "(if technology_type d = ''Generator'' \<or> technology_type d = ''Intermittent Resource''
           then add_into ar ''Total Generation (kW)''
                  (unique_tech_id d @ '' Electric Generation (kW)'') r0
           else Inr r0) = Inr r1"
      and b: "(if technology_type d = ''Energy Storage System''
           then and_then (add_into ar ''Total Storage Power (kW)''
                            (unique_tech_id d @ '' Power (kW)'') r1)
                  (add_into ar ''Aggregated State of Energy (kWh)''
                     (unique_tech_id d @ '' State of Energy (kWh)''))
           else Inr r1) = Inr r2"
      and c: "(if technology_type d = ''Load''
           then and_then
                  (add_into ar ''Total Original Load (kW)''
                     (unique_tech_id d @ '' Original Load (kW)'') r2)
                  (if tag d = ''ControllableLoad''
                   then add_into ar ''Total Load (kW)'' (unique_tech_id d @ '' Load (kW)'')
                   else add_into ar ''Total Load (kW)'' (unique_tech_id d @ '' Original Load (kW)''))
           else Inr r2) = Inr r3"
      and e: "(if technology_type d = ''Electric Vehicle''
           then and_then (add_into ar ''Total Load (kW)'' (unique_tech_id d @ '' Charge (kW)'') r3)
                  (\<lambda>results. if tag d = ''ElectricVehicle1''
                     then add_into ar ''Aggregated State of Energy (kWh)''
                            (unique_tech_id d @ '' State of Energy (kWh)'') results
                     else Inr results)
           else Inr r3) = Inr df'"
      unfolding merge_der_def Let_def r0_def [symmetric]
      by (auto dest!: and_then_Inr)
    have ok1: "has_totals r1 \<and> rows_ok n r1"
      using a ok0 by (auto split: if_splits dest: add_into_ok)
    have ok2: "has_totals r2 \<and> rows_ok n r2"
    proof (cases "technology_type d = ''Energy Storage System''")
      case True
      with b obtain x where "add_into ar ''Total Storage Power (kW)''
                            (unique_tech_id d @ '' Power (kW)'') r1 = Inr x"
        and "add_into ar ''Aggregated State of Energy (kWh)''
                     (unique_tech_id d @ '' State of Energy (kWh)'') x = Inr r2"
        by (auto dest!: and_then_Inr)
      then show ?thesis using ok1 add_into_ok by blast
    next
      case False
      then show ?thesis using b ok1 by simp
    qed
    have ok3: "has_totals r3 \<and> rows_ok n r3"
    proof (cases "technology_type d = ''Load''")
      case True
      with c obtain x where x: "add_into ar ''Total Original Load (kW)''
                     (unique_tech_id d @ '' Original Load (kW)'') r2 = Inr x"
        and y: "(if tag d = ''ControllableLoad''
                   then add_into ar ''Total Load (kW)'' (unique_tech_id d @ '' Load (kW)'')
                   else add_into ar ''Total Load (kW)'' (unique_tech_id d @ '' Original Load (kW)''))
                 x = Inr r3"
        by (auto dest!: and_then_Inr)
      have "has_totals x \<and> rows_ok n x"
        using x ok2 add_into_ok by blast
      then show ?thesis
        using y by (auto split: if_splits dest: add_into_ok)
    next
      case False
      then show ?thesis using c ok2 by simp
    qed
    show ?thesis
    proof (cases "technology_type d = ''Electric Vehicle''")
      case True
      with e obtain x where x: "add_into ar ''Total Load (kW)''
                     (unique_tech_id d @ '' Charge (kW)'') r3 = Inr x"
        and y: "(if tag d = ''ElectricVehicle1''
                     then add_into ar ''Aggregated State of Energy (kWh)''
                            (unique_tech_id d @ '' State of Energy (kWh)'') x
                     else Inr x) = Inr df'"
        by (auto dest!: and_then_Inr)
      have "has_totals x \<and> rows_ok n x"
        using x ok3 add_into_ok by blast
      then show ?thesis
        using y by (auto split: if_splits dest: add_into_ok)
    next
      case False
      then show ?thesis using e ok3 by simp
    qed
  qed
qed

lemma merge_loop_ok:
  "merge_loop ar is_dispatch_opt ders (df, monthly) = Inr (df', monthly')
   \<Longrightarrow> has_totals df \<and> rows_ok n df
   \<Longrightarrow> \<forall>d \<in> set ders. rows_ok n (timeseries_report d)
   \<Longrightarrow> has_totals df' \<and> rows_ok n df'"
proof (induction ders arbitrary: df monthly)
  case Nil
  then show ?case by simp
next
  case (Cons d ders)
  from Cons.prems(1) obtain r where r: "merge_der ar is_dispatch_opt d df = Inr r"
    and rest: "merge_loop ar is_dispatch_opt ders (r, monthly @ monthly_report d) = Inr (df', monthly')"
    by (auto split: sum.splits)
  have "has_totals r \<and> rows_ok n r"
    using merge_der_ok [OF r Cons.prems(2)] Cons.prems(3) by simp
  then show ?case
    using Cons.IH [OF rest] Cons.prems(3) by simp
qed

lemma initial_results_ok:
  "has_totals (initial_results ar idx) \<and> rows_ok (length idx) (initial_results ar idx)"
  by (simp add: initial_results_def has_totals_def has_col_def rows_ok_def)

lemma merged_ders_ok:
  assumes "merged_ders ar is_dispatch_opt idx self = Inr (results, monthly)"
    and "\<forall>d \<in> set (der_list self). rows_ok (length idx) (timeseries_report d)"
  shows "has_totals results \<and> rows_ok (length idx) results"
  using merge_loop_ok [OF assms(1) [unfolded merged_ders_def] initial_results_ok assms(2)] .


lemma merge_reports_result:
  assumes "merged_ders ar is_dispatch_opt idx self = Inr (results, monthly)"
    and "get_col results ''Total Load (kW)'' = Inr ld"
    and "get_col results ''Total Original Load (kW)'' = Inr orig"
    and "get_col results ''Total Generation (kW)'' = Inr gen"
    and "get_col results ''Total Storage Power (kW)'' = Inr stor"
  shows "merge_reports ar is_dispatch_opt idx self =
     Inr (set_col ''Net Load (kW)'' (sub_series ar (sub_series ar ld gen) stor)
            (if all_equal ld orig then drop_col ''Total Original Load (kW)'' results
             else results),
          monthly)"
  using assms by (simp add: merge_reports_def and_then_def get_col_drop_col)



text \<open>
  C8. In the table that \<open>merge_reports\<close> returns, over reports that have one row per
  time step of the index, the column \<open>Net Load (kW)\<close> has a row for every time step and
  equals, at every row, \<open>Total Load (kW)\<close> minus \<open>Total Generation (kW)\<close> minus
  \<open>Total Storage Power (kW)\<close> of the same table. The differences are those of the
  table's own arithmetic, whatever it rounds or wraps to: the column is derived from
  the three others by the two subtractions of the code and by nothing else.
\<close>

theorem net_load_derived:
  assumes "merge_reports ar is_dispatch_opt idx self = Inr (final, monthly)"
    and "\<forall>d \<in> set (der_list self). rows_ok (length idx) (timeseries_report d)"
  shows "\<exists>net ld gen stor.
           get_col final ''Net Load (kW)'' = Inr net
         \<and> get_col final ''Total Load (kW)'' = Inr ld
         \<and> get_col final ''Total Generation (kW)'' = Inr gen
         \<and> get_col final ''Total Storage Power (kW)'' = Inr stor
         \<and> length net = length idx
         \<and> (\<forall>i < length idx. net ! i = num_sub ar (num_sub ar (ld ! i) (gen ! i)) (stor ! i))"
proof -
  obtain results monthly' where
    m: "merged_ders ar is_dispatch_opt idx self = Inr (results, monthly')"
    using assms(1) unfolding merge_reports_def
    by (auto dest!: and_then_Inr)
  have ok: "has_totals results" "rows_ok (length idx) results"
    using merged_ders_ok [OF m assms(2)] by simp_all
  obtain ld orig gen stor where
    cols: "get_col results ''Total Load (kW)'' = Inr ld"
      "get_col results ''Total Original Load (kW)'' = Inr orig"
      "get_col results ''Total Generation (kW)'' = Inr gen"
      "get_col results ''Total Storage Power (kW)'' = Inr stor"
    using ok(1) unfolding has_totals_def by (meson has_col_get_col)
  have len: "length ld = length idx" "length gen = length idx" "length stor = length idx"
    using ok(2) cols by (auto dest: rows_ok_get_col)
  define net where "net = sub_series ar (sub_series ar ld gen) stor"
  have final: "final = set_col ''Net Load (kW)'' net
       (if all_equal ld orig then drop_col ''Total Original Load (kW)'' results else results)"
    using merge_reports_result [OF m cols] assms(1) by (simp add: net_def)
  have g: "get_col final ''Net Load (kW)'' = Inr net"
      "get_col final ''Total Load (kW)'' = Inr ld"
      "get_col final ''Total Generation (kW)'' = Inr gen"
      "get_col final ''Total Storage Power (kW)'' = Inr stor"
    using cols by (simp_all add: final get_col_set_col get_col_drop_col)
  have l: "length net = length idx"
    using len by (simp add: net_def sub_series_def)
  have "\<forall>i < length idx. net ! i = num_sub ar (num_sub ar (ld ! i) (gen ! i)) (stor ! i)"
    using len by (simp add: net_def sub_series_def)
  with g l show ?thesis
    by blast
qed

theorem net_load_derived_witness:
  "merge_reports int64_arithmetic True [0, 1] example_int_poi = Inr (example_int_results, [])
   \<and> rows_ok (length [0, 1 :: nat]) (timeseries_report example_int_generator)
   \<and> rows_ok (length [0, 1 :: nat]) (timeseries_report example_int_storage)
   \<and> get_col example_int_results ''Net Load (kW)'' = Inr [9223372036854775807, - 6]
   \<and> get_col example_int_results ''Total Load (kW)'' = Inr [0, 0]
   \<and> get_col example_int_results ''Total Generation (kW)'' = Inr [9223372036854775807, 5]
   \<and> get_col example_int_results ''Total Storage Power (kW)'' = Inr [2, 1]
   \<and> num_sub int64_arithmetic (num_sub int64_arithmetic 0 9223372036854775807) 2
       = 9223372036854775807
   \<and> num_sub int64_arithmetic (num_sub int64_arithmetic 0 5) 1 = - 6"
proof -
  have h: "merge_reports int64_arithmetic True [0, 1] example_int_poi =
             Inr (example_int_results, [])"
    by (simp add: merge_reports_def merged_ders_def merge_der_def add_into_def and_then_def
          get_col_def set_col_def has_col_def drop_col_def add_series_def sub_series_def
          all_equal_def initial_results_def example_int_poi_def example_int_generator_def
          example_int_storage_def example_int_results_def int64_arithmetic_def wrap64_def)
  have r: "rows_ok (length [0, 1 :: nat]) (timeseries_report example_int_generator)"
      "rows_ok (length [0, 1 :: nat]) (timeseries_report example_int_storage)"
    by (simp_all add: rows_ok_def example_int_generator_def example_int_storage_def)
  have rs: "\<forall>d \<in> set (der_list example_int_poi).
              rows_ok (length [0, 1 :: nat]) (timeseries_report d)"
    using r by (simp add: example_int_poi_def)
  from net_load_derived [OF h rs] obtain net ld gen stor where
    f: "get_col example_int_results ''Net Load (kW)'' = Inr net"
      "get_col example_int_results ''Total Load (kW)'' = Inr ld"
      "get_col example_int_results ''Total Generation (kW)'' = Inr gen"
      "get_col example_int_results ''Total Storage Power (kW)'' = Inr stor"
      "\<forall>i < length [0, 1 :: nat].
         net ! i = num_sub int64_arithmetic (num_sub int64_arithmetic (ld ! i) (gen ! i)) (stor ! i)"
    by blast
  have v: "net = [9223372036854775807, - 6]" "ld = [0, 0]" "gen = [9223372036854775807, 5]"
      "stor = [2, 1]"
    using f(1,2,3,4) by (simp_all add: get_col_def example_int_results_def)
  have "net ! 0 = num_sub int64_arithmetic (num_sub int64_arithmetic (ld ! 0) (gen ! 0)) (stor ! 0)"
      "net ! 1 = num_sub int64_arithmetic (num_sub int64_arithmetic (ld ! 1) (gen ! 1)) (stor ! 1)"
    using f(5) by simp_all
  then have "num_sub int64_arithmetic (num_sub int64_arithmetic 0 9223372036854775807) 2
       = 9223372036854775807"
      "num_sub int64_arithmetic (num_sub int64_arithmetic 0 5) 1 = - 6"
    unfolding v by simp_all
  with f(1,2,3,4) v h r show ?thesis
    by simp
qed

end
